theory Spec2Isabelle
  imports Main "HOL-Library.Word"
begin

unbundle bit_operations_syntax

section \<open>Allwinner sunxi DWMAC glue layer (dwmac-sunxi.c)\<close>

text \<open>
  A shallow embedding of \<^verbatim>\<open>drivers/net/ethernet/stmicro/stmmac/dwmac-sunxi.c\<close>.
  The driver's private data is a record; the clock, the regulator and the
  register field it drives live outside the file and are threaded through every
  function as an explicit hardware state. Each call of a kernel primitive is
  appended to a log, so that the order of the calls can be stated as well.
\<close>

subsection \<open>Pointers and error codes\<close>

text \<open>
  A C pointer as the driver tests it: \<^verbatim>\<open>NULL\<close>, a valid handle, or an
  \<^verbatim>\<open>ERR_PTR(-errno)\<close> value. \<^verbatim>\<open>IS_ERR\<close> holds of the error codes
  \<open>-MAX_ERRNO .. -1\<close> only, as in \<^verbatim>\<open>linux/err.h\<close>.
\<close>

datatype 'a ptr = NULL | Ptr 'a | ERR_PTR int

definition MAX_ERRNO :: int where "MAX_ERRNO = 4095"

fun IS_ERR :: "'a ptr \<Rightarrow> bool" where
  "IS_ERR (ERR_PTR e) = (- MAX_ERRNO \<le> e \<and> e < 0)"
| "IS_ERR _ = False"

fun PTR_ERR :: "'a ptr \<Rightarrow> int" where
  "PTR_ERR (ERR_PTR e) = e"
| "PTR_ERR _ = 0"

text \<open>
  Modelled from the spec: the errno constants of the kernel headers, which are not
  part of this source file. \<open>EPROBE_DEFER\<close> is the retryable, deferred error.
\<close>

definition ENOMEM :: int where "ENOMEM = 12"
definition ENODEV :: int where "ENODEV = 19"
definition EINVAL :: int where "EINVAL = 22"
definition EPROBE_DEFER :: int where "EPROBE_DEFER = 517"

subsection \<open>Interface modes\<close>

text \<open>
  Modelled from the spec: the enumeration \<^verbatim>\<open>phy_interface_t\<close> and the helper
  \<^verbatim>\<open>phy_interface_mode_is_rgmii\<close> come from \<^verbatim>\<open>linux/phy.h\<close>, which is not part of
  this source file. The RGMII family is the four RGMII variants; every other
  value (GMII and plain MII among them) is outside it.
\<close>

datatype phy_interface_t =
    PHY_INTERFACE_MODE_NA
  | PHY_INTERFACE_MODE_INTERNAL
  | PHY_INTERFACE_MODE_MII
  | PHY_INTERFACE_MODE_GMII
  | PHY_INTERFACE_MODE_SGMII
  | PHY_INTERFACE_MODE_TBI
  | PHY_INTERFACE_MODE_REVMII
  | PHY_INTERFACE_MODE_RMII
  | PHY_INTERFACE_MODE_RGMII
  | PHY_INTERFACE_MODE_RGMII_ID
  | PHY_INTERFACE_MODE_RGMII_RXID
  | PHY_INTERFACE_MODE_RGMII_TXID
  | PHY_INTERFACE_MODE_RTBI
  | PHY_INTERFACE_MODE_SMII
  | PHY_INTERFACE_MODE_XGMII
  | PHY_INTERFACE_MODE_MOCA
  | PHY_INTERFACE_MODE_QSGMII
  | PHY_INTERFACE_MODE_TRGMII
  | PHY_INTERFACE_MODE_1000BASEX
  | PHY_INTERFACE_MODE_2500BASEX
  | PHY_INTERFACE_MODE_RXAUI
  | PHY_INTERFACE_MODE_XAUI
  | PHY_INTERFACE_MODE_10GKR
  | PHY_INTERFACE_MODE_USXGMII

fun phy_interface_mode_is_rgmii :: "phy_interface_t \<Rightarrow> bool" where
  "phy_interface_mode_is_rgmii PHY_INTERFACE_MODE_RGMII = True"
| "phy_interface_mode_is_rgmii PHY_INTERFACE_MODE_RGMII_ID = True"
| "phy_interface_mode_is_rgmii PHY_INTERFACE_MODE_RGMII_RXID = True"
| "phy_interface_mode_is_rgmii PHY_INTERFACE_MODE_RGMII_TXID = True"
| "phy_interface_mode_is_rgmii _ = False"

subsection \<open>The driver's private data and its constants\<close>

text \<open>\<^verbatim>\<open>struct sunxi_priv_data\<close>; handles are opaque numbers.\<close>

record sunxi_priv_data =
  interface :: phy_interface_t
  clk_enabled :: int
  tx_clk :: "nat ptr"
  regulator :: "nat ptr"
  regmap_field :: "nat ptr"

definition SUN7I_GMAC_GMII_RGMII_RATE :: nat where
  "SUN7I_GMAC_GMII_RGMII_RATE = 125000000"

definition SUN7I_GMAC_MII_RATE :: nat where
  "SUN7I_GMAC_MII_RATE = 25000000"

definition SUN7I_A20_RGMII_CLK :: "32 word" where
  "SUN7I_A20_RGMII_CLK = (push_bit 1 3) OR (push_bit 12 1)"

definition SUN7I_A20_MII_CLK :: "32 word" where
  "SUN7I_A20_MII_CLK = push_bit 12 1"

subsection \<open>The kernel primitives the driver calls\<close>

text \<open>One entry of the call log.\<close>

datatype call =
    Regulator_enable
  | Regulator_disable
  | Regmap_field_write "32 word"
  | Clk_set_rate nat
  | Clk_prepare
  | Clk_enable
  | Clk_disable
  | Clk_unprepare

text \<open>
  The state of the three resources as this driver holds them: the transmit
  clock (rate, prepared, enabled), the 32-bit register field at offset 0x164
  (\<^verbatim>\<open>ccu_reg_field\<close>: lsb 0, msb 31), the PHY regulator, and the log of the
  primitive calls issued so far, oldest first.
\<close>

record hw_state =
  clk_rate :: nat
  clk_prepared :: bool
  clk_on :: bool
  field_val :: "32 word"
  regulator_on :: bool
  calls :: "call list"

text \<open>
  What the fallible primitives return during one call of a driver entry point
  (0 is success). Each entry point calls each of them at most once, so one
  value per primitive describes every behaviour of the environment.
\<close>

record outcomes =
  regulator_enable_ret :: int
  clk_set_rate_ret :: int
  clk_prepare_ret :: int
  clk_enable_ret :: int

definition note_call :: "call \<Rightarrow> hw_state \<Rightarrow> hw_state" where
  "note_call c h = h\<lparr>calls := calls h @ [c]\<rparr>"

text \<open>
  Modelled from the spec: the clock, regulator and register-field primitives of
  the kernel, which are not part of this source file. The clock is activated
  in two stages (prepare, then enable) and released in two (disable, then
  unprepare); \<open>set_rate\<close>, \<open>prepare\<close>, \<open>enable\<close> and the regulator's enable may
  fail, and a failed call changes nothing. The clock's \<open>disable\<close> and
  \<open>unprepare\<close> return no value in the kernel's interface and always take
  effect; the register-field write is treated as non-failing, and so is the
  regulator's disable, of which no failure is named.
\<close>

definition regulator_enable :: "outcomes \<Rightarrow> hw_state \<Rightarrow> int \<times> hw_state" where
  "regulator_enable e h =
     (if regulator_enable_ret e = 0
      then (0, note_call Regulator_enable (h\<lparr>regulator_on := True\<rparr>))
      else (regulator_enable_ret e, note_call Regulator_enable h))"

definition regulator_disable :: "hw_state \<Rightarrow> hw_state" where
  "regulator_disable h = note_call Regulator_disable (h\<lparr>regulator_on := False\<rparr>)"

definition regmap_field_write :: "32 word \<Rightarrow> hw_state \<Rightarrow> hw_state" where
  "regmap_field_write v h = note_call (Regmap_field_write v) (h\<lparr>field_val := v\<rparr>)"

definition clk_set_rate :: "outcomes \<Rightarrow> nat \<Rightarrow> hw_state \<Rightarrow> int \<times> hw_state" where
  "clk_set_rate e r h =
     (if clk_set_rate_ret e = 0
      then (0, note_call (Clk_set_rate r) (h\<lparr>clk_rate := r\<rparr>))
      else (clk_set_rate_ret e, note_call (Clk_set_rate r) h))"

definition clk_prepare :: "outcomes \<Rightarrow> hw_state \<Rightarrow> int \<times> hw_state" where
  "clk_prepare e h =
     (if clk_prepare_ret e = 0
      then (0, note_call Clk_prepare (h\<lparr>clk_prepared := True\<rparr>))
      else (clk_prepare_ret e, note_call Clk_prepare h))"

definition clk_enable :: "outcomes \<Rightarrow> hw_state \<Rightarrow> int \<times> hw_state" where
  "clk_enable e h =
     (if clk_enable_ret e = 0
      then (0, note_call Clk_enable (h\<lparr>clk_on := True\<rparr>))
      else (clk_enable_ret e, note_call Clk_enable h))"

definition clk_disable :: "hw_state \<Rightarrow> hw_state" where
  "clk_disable h = note_call Clk_disable (h\<lparr>clk_on := False\<rparr>)"

definition clk_unprepare :: "hw_state \<Rightarrow> hw_state" where
  "clk_unprepare h = note_call Clk_unprepare (h\<lparr>clk_prepared := False\<rparr>)"

text \<open>
  Modelled from the spec: the combined prepare+enable step, an inline helper of
  \<^verbatim>\<open>linux/clk.h\<close> that is not part of this source file. It prepares, then
  enables, and unprepares again when the enable fails, so that a failed step
  leaves the clock neither prepared nor enabled by it.
\<close>

definition clk_prepare_enable :: "outcomes \<Rightarrow> hw_state \<Rightarrow> int \<times> hw_state" where
  "clk_prepare_enable e h =
     (case clk_prepare e h of (ret, h1) \<Rightarrow>
        if ret \<noteq> 0 then (ret, h1)
        else (case clk_enable e h1 of (ret', h2) \<Rightarrow>
          if ret' \<noteq> 0 then (ret', clk_unprepare h2) else (ret', h2)))"

subsection \<open>init, exit and fix_speed\<close>

text \<open>
  \<^verbatim>\<open>sun7i_gmac_init\<close> (lines 43 to 85). The result is the code returned, the
  private data and the resources. On the legacy path the results of the rate
  call and of the combined prepare+enable are dropped, as in the source.
\<close>

definition sun7i_gmac_init ::
  "outcomes \<Rightarrow> sunxi_priv_data \<Rightarrow> hw_state \<Rightarrow> int \<times> sunxi_priv_data \<times> hw_state" where
  "sun7i_gmac_init e gmac h0 =
     (case (if regulator gmac \<noteq> NULL then regulator_enable e h0 else (0, h0)) of
        (ret, h1) \<Rightarrow>
          if regulator gmac \<noteq> NULL \<and> ret \<noteq> 0 then (ret, gmac, h1)
          else if regmap_field gmac \<noteq> NULL then
            (if phy_interface_mode_is_rgmii (interface gmac) then
               (case clk_prepare_enable e (regmap_field_write SUN7I_A20_RGMII_CLK h1) of
                  (r, h2) \<Rightarrow> (r, gmac, h2))
             else
               (case clk_enable e (regmap_field_write SUN7I_A20_MII_CLK h1) of
                  (r, h2) \<Rightarrow> (r, gmac, h2)))
          else if phy_interface_mode_is_rgmii (interface gmac) then
            (case clk_set_rate e SUN7I_GMAC_GMII_RGMII_RATE h1 of
               (_, h2) \<Rightarrow>
                 (case clk_prepare_enable e h2 of
                    (_, h3) \<Rightarrow> (0, gmac\<lparr>clk_enabled := 1\<rparr>, h3)))
          else
            (case clk_set_rate e SUN7I_GMAC_MII_RATE h1 of
               (_, h2) \<Rightarrow>
                 (case clk_prepare e h2 of
                    (r, h3) \<Rightarrow> if r \<noteq> 0 then (r, gmac, h3) else (0, gmac, h3))))"

text \<open>\<^verbatim>\<open>sun7i_gmac_exit\<close> (lines 87 to 105); it returns nothing.\<close>

definition sun7i_gmac_exit ::
  "sunxi_priv_data \<Rightarrow> hw_state \<Rightarrow> sunxi_priv_data \<times> hw_state" where
  "sun7i_gmac_exit gmac h0 =
     (case (if regmap_field gmac \<noteq> NULL
            then (gmac, clk_disable (regmap_field_write 0 h0))
            else if clk_enabled gmac \<noteq> 0
              then (gmac\<lparr>clk_enabled := 0\<rparr>, clk_disable h0)
              else (gmac, h0)) of
        (gmac1, h1) \<Rightarrow>
          (gmac1, (if regulator gmac1 \<noteq> NULL
                   then regulator_disable (clk_unprepare h1)
                   else clk_unprepare h1)))"

text \<open>
  \<^verbatim>\<open>sun7i_fix_speed\<close> (lines 135 to 172); it returns nothing, and the result
  of every clock call in it is dropped. The speed is an \<^verbatim>\<open>unsigned int\<close>.
\<close>

definition sun7i_fix_speed ::
  "outcomes \<Rightarrow> 32 word \<Rightarrow> sunxi_priv_data \<times> hw_state \<Rightarrow> sunxi_priv_data \<times> hw_state" where
  "sun7i_fix_speed e speed s =
     (case s of (gmac, h0) \<Rightarrow>
        if regmap_field gmac \<noteq> NULL then
          (gmac, snd (clk_prepare_enable e
             (regmap_field_write
                (if speed = 1000 then SUN7I_A20_RGMII_CLK else SUN7I_A20_MII_CLK)
                (clk_unprepare (clk_disable h0)))))
        else if interface gmac \<noteq> PHY_INTERFACE_MODE_GMII then (gmac, h0)
        else
          (case (if clk_enabled gmac \<noteq> 0
                 then (gmac\<lparr>clk_enabled := 0\<rparr>, clk_disable h0)
                 else (gmac, h0)) of
             (gmac1, h1) \<Rightarrow>
               if speed = 1000 then
                 (gmac1\<lparr>clk_enabled := 1\<rparr>,
                  snd (clk_prepare_enable e
                    (snd (clk_set_rate e SUN7I_GMAC_GMII_RGMII_RATE (clk_unprepare h1)))))
               else
                 (gmac1,
                  snd (clk_prepare e
                    (snd (clk_set_rate e SUN7I_GMAC_MII_RATE (clk_unprepare h1)))))))"

subsection \<open>Sequences of driver calls\<close>

text \<open>Any number of link-speed events, each with its own primitive outcomes.\<close>

fun fix_speeds ::
  "(outcomes \<times> 32 word) list \<Rightarrow> sunxi_priv_data \<times> hw_state \<Rightarrow> sunxi_priv_data \<times> hw_state" where
  "fix_speeds [] s = s"
| "fix_speeds ((e, speed) # rest) s = fix_speeds rest (sun7i_fix_speed e speed s)"

text \<open>The three entry points as the framework may invoke them, in any order.\<close>

datatype driver_call = Init outcomes | Fix_speed outcomes "32 word" | Exit

fun driver_step ::
  "driver_call \<Rightarrow> sunxi_priv_data \<times> hw_state \<Rightarrow> sunxi_priv_data \<times> hw_state" where
  "driver_step (Init e) (gmac, h) = snd (sun7i_gmac_init e gmac h)"
| "driver_step (Fix_speed e speed) (gmac, h) = sun7i_fix_speed e speed (gmac, h)"
| "driver_step Exit (gmac, h) = sun7i_gmac_exit gmac h"

fun driver_run ::
  "driver_call list \<Rightarrow> sunxi_priv_data \<times> hw_state \<Rightarrow> sunxi_priv_data \<times> hw_state" where
  "driver_run [] s = s"
| "driver_run (c # cs) s = driver_run cs (driver_step c s)"

text \<open>
  The state a caller can observe: the private data and the resources, without
  the log of calls.
\<close>

definition observable ::
  "sunxi_priv_data \<times> hw_state \<Rightarrow> sunxi_priv_data \<times> hw_state" where
  "observable s = (fst s, (snd s)\<lparr>calls := []\<rparr>)"

text \<open>
  The state discovery hands to init: the flag is zero (the private data is
  allocated zeroed) and this driver holds the clock neither prepared nor
  enabled and the regulator not enabled.
\<close>

definition post_discovery :: "sunxi_priv_data \<Rightarrow> hw_state \<Rightarrow> bool" where
  "post_discovery gmac h \<longleftrightarrow>
     clk_enabled gmac = 0 \<and> \<not> clk_on h \<and> \<not> clk_prepared h \<and> \<not> regulator_on h"

text \<open>On the legacy path the flag tracks the clock: an enabled clock has the flag set.\<close>

definition flag_tracks_clock :: "sunxi_priv_data \<Rightarrow> hw_state \<Rightarrow> bool" where
  "flag_tracks_clock gmac h \<longleftrightarrow>
     regmap_field gmac \<noteq> NULL \<or> clk_enabled gmac \<noteq> 0 \<or> \<not> clk_on h"

text \<open>
  What holds of every state between init and exit: the flag tracks the clock,
  the flag is zero on the modern path, and a regulator that was never acquired
  is not enabled.
\<close>

definition settled :: "sunxi_priv_data \<Rightarrow> hw_state \<Rightarrow> bool" where
  "settled gmac h \<longleftrightarrow>
     flag_tracks_clock gmac h
     \<and> (regmap_field gmac \<noteq> NULL \<longrightarrow> clk_enabled gmac = 0)
     \<and> (regulator gmac = NULL \<longrightarrow> \<not> regulator_on h)"

subsection \<open>Discovery (probe)\<close>

text \<open>
  What the hardware description and the collaborating kernel services answer
  during one probe: every lookup the probe function makes is a field.
\<close>

record probe_env =
  platform_resources_ret :: int
  config_dt :: "nat ptr"
  kzalloc_ok :: bool
  phy_mode_ret :: int
  phy_mode :: phy_interface_t
  syscon_phandle :: bool
  stmmaceth_clk :: "nat ptr"
  syscon_pdev :: bool
  syscon_dev_regmap :: "nat ptr"
  syscon_lookup :: "nat ptr"
  field_alloc :: "nat ptr"
  legacy_clk :: "nat ptr"
  phy_regulator :: "nat ptr"
  init_outcomes :: outcomes
  dvr_probe_ret :: int

text \<open>
  \<open>syscon_phandle\<close>: \<^verbatim>\<open>of_parse_phandle(node, "syscon", 0)\<close> is not NULL;
  \<open>syscon_pdev\<close>: \<^verbatim>\<open>of_find_device_by_node\<close> finds the owning platform device;
  \<open>syscon_dev_regmap\<close>: what \<^verbatim>\<open>dev_get_regmap\<close> returns for it.
\<close>

definition sun7i_gmac_get_syscon_from_dev :: "probe_env \<Rightarrow> nat ptr" where
  "sun7i_gmac_get_syscon_from_dev pe =
     (if \<not> syscon_phandle pe then ERR_PTR (- ENODEV)
      else if \<not> syscon_pdev pe then ERR_PTR (- EPROBE_DEFER)
      else if syscon_dev_regmap pe = NULL then ERR_PTR (- EINVAL)
      else syscon_dev_regmap pe)"

text \<open>The private data as \<^verbatim>\<open>devm_kzalloc\<close> returns it: all zero.\<close>

definition zeroed_priv :: sunxi_priv_data where
  "zeroed_priv = \<lparr>interface = PHY_INTERFACE_MODE_NA, clk_enabled = 0, tx_clk = NULL,
     regulator = NULL, regmap_field = NULL\<rparr>"

text \<open>
  The first part of \<^verbatim>\<open>sun7i_gmac_probe\<close>, up to the regulator lookup. \<open>Inl\<close> is
  an error exit (a \<^verbatim>\<open>return\<close> or the jump to \<^verbatim>\<open>err_remove_config_dt\<close>) with the
  code returned and the private data as far as it was filled in (\<open>None\<close> when
  it was never allocated); \<open>Inr\<close> is the private data discovery hands to init.
\<close>

definition sun7i_gmac_probe_resources ::
  "probe_env \<Rightarrow> (int \<times> sunxi_priv_data option) + sunxi_priv_data" where
  "sun7i_gmac_probe_resources pe =
     (if platform_resources_ret pe \<noteq> 0 then Inl (platform_resources_ret pe, None)
      else if IS_ERR (config_dt pe) then Inl (PTR_ERR (config_dt pe), None)
      else if \<not> kzalloc_ok pe then Inl (- ENOMEM, None)
      else
        (let gmac0 = zeroed_priv\<lparr>interface := phy_mode pe\<rparr> in
         if phy_mode_ret pe \<noteq> 0 \<and> phy_mode_ret pe \<noteq> - ENODEV
         then Inl (phy_mode_ret pe, Some gmac0)
         else
           (case (if syscon_phandle pe then
                    (let gmac1 = gmac0\<lparr>tx_clk := stmmaceth_clk pe\<rparr> in
                     if IS_ERR (tx_clk gmac1) then Inl (PTR_ERR (tx_clk gmac1), Some gmac1)
                     else
                       (let regmap0 = sun7i_gmac_get_syscon_from_dev pe;
                            regmap = (if IS_ERR regmap0 then syscon_lookup pe else regmap0) in
                        if IS_ERR regmap then Inl (PTR_ERR regmap, Some gmac1)
                        else
                          (let gmac2 = gmac1\<lparr>regmap_field := field_alloc pe\<rparr> in
                           if IS_ERR (regmap_field gmac2)
                           then Inl (PTR_ERR (regmap_field gmac2), Some gmac2)
                           else Inr gmac2)))
                  else
                    (let gmac1 = gmac0\<lparr>tx_clk := legacy_clk pe\<rparr> in
                     if IS_ERR (tx_clk gmac1) then Inl (PTR_ERR (tx_clk gmac1), Some gmac1)
                     else Inr gmac1)) of
              Inl err \<Rightarrow> Inl err
            | Inr gmac3 \<Rightarrow>
                (let gmac4 = gmac3\<lparr>regulator := phy_regulator pe\<rparr> in
                 if IS_ERR (regulator gmac4) then
                   (if PTR_ERR (regulator gmac4) = - EPROBE_DEFER
                    then Inl (- EPROBE_DEFER, Some gmac4)
                    else Inr (gmac4\<lparr>regulator := NULL\<rparr>))
                 else Inr gmac4))))"

text \<open>
  The whole of \<^verbatim>\<open>sun7i_gmac_probe\<close>: discovery, then init, then the generic
  driver's probe (\<open>dvr_probe_ret\<close>); exit runs only when that last step fails.
  The result is the code returned, the private data and the resources.
\<close>

definition sun7i_gmac_probe ::
  "probe_env \<Rightarrow> hw_state \<Rightarrow> int \<times> sunxi_priv_data option \<times> hw_state" where
  "sun7i_gmac_probe pe h =
     (case sun7i_gmac_probe_resources pe of
        Inl (ret, partial) \<Rightarrow> (ret, partial, h)
      | Inr gmac \<Rightarrow>
          (case sun7i_gmac_init (init_outcomes pe) gmac h of
             (ret, gmac1, h1) \<Rightarrow>
               if ret \<noteq> 0 then (ret, Some gmac1, h1)
               else if dvr_probe_ret pe \<noteq> 0 then
                 (case sun7i_gmac_exit gmac1 h1 of
                    (gmac2, h2) \<Rightarrow> (dvr_probe_ret pe, Some gmac2, h2))
               else (0, Some gmac1, h1)))"

subsection \<open>Concrete states and environments\<close>

text \<open>Every fallible primitive succeeds.\<close>

definition all_ok :: outcomes where
  "all_ok = \<lparr>regulator_enable_ret = 0, clk_set_rate_ret = 0, clk_prepare_ret = 0,
     clk_enable_ret = 0\<rparr>"

text \<open>Nothing prepared, enabled or written yet.\<close>

definition idle_hw :: hw_state where
  "idle_hw = \<lparr>clk_rate = 0, clk_prepared = False, clk_on = False, field_val = 0,
     regulator_on = False, calls = []\<rparr>"

text \<open>Private data as discovery leaves it on the legacy and on the modern path.\<close>

definition legacy_priv :: "phy_interface_t \<Rightarrow> nat ptr \<Rightarrow> sunxi_priv_data" where
  "legacy_priv m r = \<lparr>interface = m, clk_enabled = 0, tx_clk = Ptr 0, regulator = r,
     regmap_field = NULL\<rparr>"

definition modern_priv :: "phy_interface_t \<Rightarrow> nat ptr \<Rightarrow> sunxi_priv_data" where
  "modern_priv m r = \<lparr>interface = m, clk_enabled = 0, tx_clk = Ptr 0, regulator = r,
     regmap_field = Ptr 1\<rparr>"

text \<open>
  A hardware description with the \<open>syscon\<close> reference whose owning device has
  not been probed yet; \<open>fallback\<close> is what the generic syscon lookup answers.
\<close>

definition syscon_not_ready :: "nat ptr \<Rightarrow> probe_env" where
  "syscon_not_ready fallback = \<lparr>platform_resources_ret = 0, config_dt = Ptr 0,
     kzalloc_ok = True, phy_mode_ret = 0, phy_mode = PHY_INTERFACE_MODE_RGMII,
     syscon_phandle = True, stmmaceth_clk = Ptr 0, syscon_pdev = False,
     syscon_dev_regmap = NULL, syscon_lookup = fallback, field_alloc = Ptr 1,
     legacy_clk = Ptr 0, phy_regulator = Ptr 2, init_outcomes = all_ok,
     dvr_probe_ret = 0\<rparr>"

text \<open>A legacy hardware description with a PHY regulator and no explicit mode.\<close>

definition legacy_dt :: "outcomes \<Rightarrow> probe_env" where
  "legacy_dt e = \<lparr>platform_resources_ret = 0, config_dt = Ptr 0,
     kzalloc_ok = True, phy_mode_ret = - ENODEV, phy_mode = PHY_INTERFACE_MODE_NA,
     syscon_phandle = False, stmmaceth_clk = Ptr 0, syscon_pdev = False,
     syscon_dev_regmap = NULL, syscon_lookup = ERR_PTR (- ENODEV), field_alloc = Ptr 1,
     legacy_clk = Ptr 0, phy_regulator = Ptr 2, init_outcomes = e,
     dvr_probe_ret = 0\<rparr>"

section \<open>Properties\<close>

lemmas prim_defs = regulator_enable_def regulator_disable_def regmap_field_write_def
  clk_set_rate_def clk_prepare_def clk_enable_def clk_disable_def clk_unprepare_def
  clk_prepare_enable_def note_call_def

lemmas sample_defs = all_ok_def idle_hw_def legacy_priv_def modern_priv_def

subsection \<open>Frame and invariant lemmas\<close>

lemma init_frame:
  "sun7i_gmac_init e g h = (r, g', h') \<Longrightarrow> g' = g\<lparr>clk_enabled := clk_enabled g'\<rparr>"
  by (auto simp add: sun7i_gmac_init_def split: prod.splits if_splits)

lemma exit_frame:
  "sun7i_gmac_exit g h = (g', h') \<Longrightarrow> g' = g\<lparr>clk_enabled := clk_enabled g'\<rparr>"
  by (auto simp add: sun7i_gmac_exit_def split: prod.splits if_splits)

lemma fix_speed_frame:
  "sun7i_fix_speed e v (g, h) = (g', h') \<Longrightarrow> g' = g\<lparr>clk_enabled := clk_enabled g'\<rparr>"
  by (auto simp add: sun7i_fix_speed_def split: prod.splits if_splits)

lemma init_tracks:
  "post_discovery g h \<Longrightarrow> sun7i_gmac_init e g h = (r, g', h') \<Longrightarrow> flag_tracks_clock g' h'"
  by (auto simp add: sun7i_gmac_init_def post_discovery_def flag_tracks_clock_def prim_defs
      split: prod.splits if_splits)

lemma fix_speed_tracks:
  "flag_tracks_clock g h \<Longrightarrow> sun7i_fix_speed e v (g, h) = (g', h') \<Longrightarrow>
   flag_tracks_clock g' h'"
  by (auto simp add: sun7i_fix_speed_def flag_tracks_clock_def prim_defs
      split: prod.splits if_splits)

lemma fix_speeds_tracks:
  "flag_tracks_clock g h \<Longrightarrow> fix_speeds evs (g, h) = (g', h') \<Longrightarrow> flag_tracks_clock g' h'"
proof (induction evs arbitrary: g h)
  case Nil
  then show ?case by simp
next
  case (Cons a evs)
  obtain e v where a: "a = (e, v)" by (cases a)
  obtain g1 h1 where s: "sun7i_fix_speed e v (g, h) = (g1, h1)"
    by (cases "sun7i_fix_speed e v (g, h)")
  from Cons.prems(1) s have "flag_tracks_clock g1 h1" by (rule fix_speed_tracks)
  moreover from Cons.prems(2) a s have "fix_speeds evs (g1, h1) = (g', h')" by simp
  ultimately show ?case by (rule Cons.IH)
qed

subsection \<open>What discovery hands to init\<close>

text \<open>
  When discovery succeeds, the flag of the private data is zero and none of its
  handles is an error pointer; the register field is bound only when the
  \<open>syscon\<close> reference is present.
\<close>

lemma probe_resources_result:
  "sun7i_gmac_probe_resources pe = Inr g \<Longrightarrow>
   clk_enabled g = 0 \<and> interface g = phy_mode pe
   \<and> \<not> IS_ERR (tx_clk g) \<and> \<not> IS_ERR (regulator g) \<and> \<not> IS_ERR (regmap_field g)
   \<and> (regmap_field g \<noteq> NULL \<longrightarrow> syscon_phandle pe)"
  by (auto simp add: sun7i_gmac_probe_resources_def zeroed_priv_def Let_def
      split: if_splits sum.splits)

subsection \<open>init on the modern path\<close>

text \<open>
  On the modern path a successful init leaves the mode-select field at the
  RGMII value for the RGMII family and at the MII value otherwise, and for the
  RGMII family the result of init is the result of the combined prepare+enable.
\<close>

lemma init_modern_field:
  "regmap_field g \<noteq> NULL \<Longrightarrow> fst (sun7i_gmac_init e g h) = 0 \<Longrightarrow>
   field_val (snd (snd (sun7i_gmac_init e g h))) =
     (if phy_interface_mode_is_rgmii (interface g)
      then SUN7I_A20_RGMII_CLK else SUN7I_A20_MII_CLK)"
  by (auto simp add: sun7i_gmac_init_def prim_defs split: prod.splits if_splits)

lemma init_modern_rgmii:
  "regmap_field g \<noteq> NULL \<Longrightarrow> regulator g = NULL \<Longrightarrow>
   phy_interface_mode_is_rgmii (interface g) \<Longrightarrow>
   sun7i_gmac_init e g h =
     (fst (clk_prepare_enable e (regmap_field_write SUN7I_A20_RGMII_CLK h)), g,
      snd (clk_prepare_enable e (regmap_field_write SUN7I_A20_RGMII_CLK h)))"
  by (simp add: sun7i_gmac_init_def split: prod.splits)

text \<open>
  C1. On the modern path init is to write the mode value and then enable the
  clock by the combined prepare+enable step. For an interface mode outside the
  RGMII family the code calls the bare enable instead: at the state below
  (modern path, plain MII, every primitive succeeding) init issues the register
  write and \<open>Clk_enable\<close> only and returns 0 with the clock never prepared,
  where the combined step would have issued \<open>Clk_prepare\<close> first and left the
  clock prepared.
\<close>

theorem init_modern_mii_skips_prepare:
  "sun7i_gmac_init all_ok (modern_priv PHY_INTERFACE_MODE_MII NULL) idle_hw =
     (0, modern_priv PHY_INTERFACE_MODE_MII NULL,
      idle_hw\<lparr>clk_on := True, field_val := SUN7I_A20_MII_CLK,
        calls := [Regmap_field_write SUN7I_A20_MII_CLK, Clk_enable]\<rparr>)
   \<and> \<not> clk_prepared (snd (snd
        (sun7i_gmac_init all_ok (modern_priv PHY_INTERFACE_MODE_MII NULL) idle_hw)))
   \<and> snd (clk_prepare_enable all_ok (regmap_field_write SUN7I_A20_MII_CLK idle_hw)) =
      idle_hw\<lparr>clk_prepared := True, clk_on := True, field_val := SUN7I_A20_MII_CLK,
        calls := [Regmap_field_write SUN7I_A20_MII_CLK, Clk_prepare, Clk_enable]\<rparr>"
  by (simp add: sun7i_gmac_init_def prim_defs sample_defs)

subsection \<open>init on the legacy path\<close>

text \<open>
  C2 (as amended). On the legacy path, from the state discovery leaves, a
  successful init of an RGMII-family mode sets the flag to 1, leaves the rate
  at 125 MHz if the rate call succeeded and the clock prepared and enabled if
  the prepare and enable calls succeeded (init ignores all three results). For
  any other mode a successful init leaves the flag at 0 and the clock prepared
  and not enabled, the rate at 25 MHz if the rate call succeeded; and once the
  regulator step has passed, init fails exactly when the prepare call fails.
\<close>

theorem init_legacy_result:
  assumes "regmap_field g = NULL" and "post_discovery g h"
    and "sun7i_gmac_init e g h = (ret, g', h')"
  shows "(ret = 0 \<longrightarrow>
           (if phy_interface_mode_is_rgmii (interface g)
            then clk_enabled g' = 1
              \<and> (clk_set_rate_ret e = 0 \<longrightarrow> clk_rate h' = SUN7I_GMAC_GMII_RGMII_RATE)
              \<and> (clk_prepare_ret e = 0 \<and> clk_enable_ret e = 0
                   \<longrightarrow> clk_prepared h' \<and> clk_on h')
            else clk_enabled g' = 0 \<and> clk_prepared h' \<and> \<not> clk_on h'
              \<and> (clk_set_rate_ret e = 0 \<longrightarrow> clk_rate h' = SUN7I_GMAC_MII_RATE)))
       \<and> (\<not> phy_interface_mode_is_rgmii (interface g)
            \<and> (regulator g = NULL \<or> regulator_enable_ret e = 0)
          \<longrightarrow> (ret \<noteq> 0 \<longleftrightarrow> clk_prepare_ret e \<noteq> 0))"
  using assms
  by (auto simp add: sun7i_gmac_init_def post_discovery_def prim_defs
      split: prod.splits if_splits)

theorem init_legacy_result_witness:
  "post_discovery (legacy_priv PHY_INTERFACE_MODE_RGMII NULL) idle_hw
   \<and> fst (sun7i_gmac_init all_ok (legacy_priv PHY_INTERFACE_MODE_RGMII NULL) idle_hw) = 0
   \<and> clk_enabled (fst (snd
        (sun7i_gmac_init all_ok (legacy_priv PHY_INTERFACE_MODE_RGMII NULL) idle_hw))) = 1
   \<and> clk_rate (snd (snd
        (sun7i_gmac_init all_ok (legacy_priv PHY_INTERFACE_MODE_RGMII NULL) idle_hw)))
       = SUN7I_GMAC_GMII_RGMII_RATE
   \<and> clk_on (snd (snd
        (sun7i_gmac_init all_ok (legacy_priv PHY_INTERFACE_MODE_RGMII NULL) idle_hw)))"
proof -
  let ?g = "legacy_priv PHY_INTERFACE_MODE_RGMII NULL"
  let ?h = "idle_hw\<lparr>clk_rate := SUN7I_GMAC_GMII_RGMII_RATE, clk_prepared := True,
    clk_on := True,
    calls := [Clk_set_rate SUN7I_GMAC_GMII_RGMII_RATE, Clk_prepare, Clk_enable]\<rparr>"
  have a: "regmap_field ?g = NULL" by (simp add: sample_defs)
  have b: "post_discovery ?g idle_hw" by (simp add: post_discovery_def sample_defs)
  have c: "sun7i_gmac_init all_ok ?g idle_hw = (0, ?g\<lparr>clk_enabled := 1\<rparr>, ?h)"
    by (simp add: sun7i_gmac_init_def prim_defs sample_defs)
  from init_legacy_result [OF a b c] b c show ?thesis
    by (simp add: sample_defs)
qed

text \<open>
  The claim as stated fails: with the rate call failing, or the prepare call
  failing, init of an RGMII mode on the legacy path still returns 0, and the
  rate is not 125 MHz, respectively the clock is not prepared.
\<close>

theorem init_legacy_rate_not_guaranteed:
  "regmap_field (legacy_priv PHY_INTERFACE_MODE_RGMII NULL) = NULL
   \<and> post_discovery (legacy_priv PHY_INTERFACE_MODE_RGMII NULL) idle_hw
   \<and> phy_interface_mode_is_rgmii (interface (legacy_priv PHY_INTERFACE_MODE_RGMII NULL))
   \<and> fst (sun7i_gmac_init (all_ok\<lparr>clk_set_rate_ret := - EINVAL\<rparr>)
        (legacy_priv PHY_INTERFACE_MODE_RGMII NULL) idle_hw) = 0
   \<and> clk_rate (snd (snd (sun7i_gmac_init (all_ok\<lparr>clk_set_rate_ret := - EINVAL\<rparr>)
        (legacy_priv PHY_INTERFACE_MODE_RGMII NULL) idle_hw))) \<noteq> SUN7I_GMAC_GMII_RGMII_RATE
   \<and> fst (sun7i_gmac_init (all_ok\<lparr>clk_prepare_ret := - EINVAL\<rparr>)
        (legacy_priv PHY_INTERFACE_MODE_RGMII NULL) idle_hw) = 0
   \<and> \<not> clk_prepared (snd (snd (sun7i_gmac_init (all_ok\<lparr>clk_prepare_ret := - EINVAL\<rparr>)
        (legacy_priv PHY_INTERFACE_MODE_RGMII NULL) idle_hw)))"
  by (simp add: sun7i_gmac_init_def post_discovery_def prim_defs sample_defs EINVAL_def
      SUN7I_GMAC_GMII_RGMII_RATE_def)

subsection \<open>fix_speed on the modern path\<close>

text \<open>
  C3 (as amended). On the modern path, for every speed, fix_speed leaves the
  mode-select field at the RGMII value when the speed is 1000 and at the MII
  value otherwise; it leaves the clock prepared and enabled exactly when the
  prepare and the enable call of its combined step both succeed (the result of
  that step is ignored, and after a failure the clock is neither prepared nor
  enabled); the private data is unchanged and the interface mode is not
  consulted: with any other mode in its place the outcome is the same.
\<close>

theorem fix_speed_modern_result:
  assumes "regmap_field g \<noteq> NULL" and "sun7i_fix_speed e speed (g, h) = (g', h')"
  shows "field_val h' = (if speed = 1000 then SUN7I_A20_RGMII_CLK else SUN7I_A20_MII_CLK)
       \<and> (clk_prepared h' \<longleftrightarrow> clk_prepare_ret e = 0 \<and> clk_enable_ret e = 0)
       \<and> (clk_on h' \<longleftrightarrow> clk_prepare_ret e = 0 \<and> clk_enable_ret e = 0)
       \<and> g' = g
       \<and> sun7i_fix_speed e speed (g\<lparr>interface := m\<rparr>, h) = (g\<lparr>interface := m\<rparr>, h')"
  using assms
  by (auto simp add: sun7i_fix_speed_def prim_defs split: prod.splits if_splits)

theorem fix_speed_modern_result_witness:
  "regmap_field (modern_priv PHY_INTERFACE_MODE_RGMII NULL) \<noteq> NULL
   \<and> field_val (snd (sun7i_fix_speed all_ok 100
        (modern_priv PHY_INTERFACE_MODE_RGMII NULL, idle_hw))) = SUN7I_A20_MII_CLK
   \<and> clk_prepared (snd (sun7i_fix_speed all_ok 100
        (modern_priv PHY_INTERFACE_MODE_RGMII NULL, idle_hw)))
   \<and> clk_on (snd (sun7i_fix_speed all_ok 100
        (modern_priv PHY_INTERFACE_MODE_RGMII NULL, idle_hw)))"
proof -
  let ?g = "modern_priv PHY_INTERFACE_MODE_RGMII NULL"
  let ?s = "sun7i_fix_speed all_ok 100 (?g, idle_hw)"
  have a: "regmap_field ?g \<noteq> NULL" by (simp add: sample_defs)
  have b: "?s = (fst ?s, snd ?s)" by simp
  from fix_speed_modern_result [OF a b] a show ?thesis
    by (simp add: all_ok_def)
qed

text \<open>
  The claim as stated fails: after a successful init the clock is enabled, and
  a fix_speed whose prepare call fails returns with the clock disabled and
  unprepared.
\<close>

theorem fix_speed_modern_clock_left_off:
  "regmap_field (modern_priv PHY_INTERFACE_MODE_RGMII NULL) \<noteq> NULL
   \<and> fst (sun7i_gmac_init all_ok (modern_priv PHY_INTERFACE_MODE_RGMII NULL) idle_hw) = 0
   \<and> clk_on (snd (snd
        (sun7i_gmac_init all_ok (modern_priv PHY_INTERFACE_MODE_RGMII NULL) idle_hw)))
   \<and> \<not> clk_on (snd (sun7i_fix_speed (all_ok\<lparr>clk_prepare_ret := - EINVAL\<rparr>) 1000
        (snd (sun7i_gmac_init all_ok (modern_priv PHY_INTERFACE_MODE_RGMII NULL) idle_hw))))
   \<and> \<not> clk_prepared (snd (sun7i_fix_speed (all_ok\<lparr>clk_prepare_ret := - EINVAL\<rparr>) 1000
        (snd (sun7i_gmac_init all_ok (modern_priv PHY_INTERFACE_MODE_RGMII NULL) idle_hw))))"
  by (simp add: sun7i_gmac_init_def sun7i_fix_speed_def prim_defs sample_defs EINVAL_def)

subsection \<open>fix_speed on the legacy path\<close>

text \<open>
  C4 (as amended). On the legacy path, for every speed, fix_speed changes
  nothing at all (private data, resources, call log) unless the interface mode
  is exactly GMII. For GMII, speed 1000 sets the flag to 1, leaves the rate at
  125 MHz if the rate call succeeded and the clock prepared and enabled if the
  prepare and enable calls succeeded; any other speed leaves the flag at 0,
  the clock not enabled (given that the flag tracked the clock before), the
  rate at 25 MHz if the rate call succeeded and the clock prepared if the
  prepare call succeeded.
\<close>

theorem fix_speed_legacy_result:
  assumes "regmap_field g = NULL" and "sun7i_fix_speed e speed (g, h) = (g', h')"
  shows "(interface g \<noteq> PHY_INTERFACE_MODE_GMII \<longrightarrow> g' = g \<and> h' = h)
       \<and> (interface g = PHY_INTERFACE_MODE_GMII \<longrightarrow>
            (if speed = 1000
             then clk_enabled g' = 1
               \<and> (clk_set_rate_ret e = 0 \<longrightarrow> clk_rate h' = SUN7I_GMAC_GMII_RGMII_RATE)
               \<and> (clk_prepare_ret e = 0 \<and> clk_enable_ret e = 0
                    \<longrightarrow> clk_prepared h' \<and> clk_on h')
             else clk_enabled g' = 0
               \<and> (flag_tracks_clock g h \<longrightarrow> \<not> clk_on h')
               \<and> (clk_set_rate_ret e = 0 \<longrightarrow> clk_rate h' = SUN7I_GMAC_MII_RATE)
               \<and> (clk_prepare_ret e = 0 \<longrightarrow> clk_prepared h')))"
  using assms
  by (auto simp add: sun7i_fix_speed_def flag_tracks_clock_def prim_defs
      split: prod.splits if_splits)

theorem fix_speed_legacy_result_witness:
  "regmap_field (legacy_priv PHY_INTERFACE_MODE_GMII NULL) = NULL
   \<and> flag_tracks_clock (legacy_priv PHY_INTERFACE_MODE_GMII NULL) idle_hw
   \<and> clk_enabled (fst (sun7i_fix_speed all_ok 1000
        (legacy_priv PHY_INTERFACE_MODE_GMII NULL, idle_hw))) = 1
   \<and> clk_rate (snd (sun7i_fix_speed all_ok 1000
        (legacy_priv PHY_INTERFACE_MODE_GMII NULL, idle_hw))) = SUN7I_GMAC_GMII_RGMII_RATE
   \<and> clk_on (snd (sun7i_fix_speed all_ok 1000
        (legacy_priv PHY_INTERFACE_MODE_GMII NULL, idle_hw)))
   \<and> sun7i_fix_speed all_ok 1000 (legacy_priv PHY_INTERFACE_MODE_MII NULL, idle_hw)
       = (legacy_priv PHY_INTERFACE_MODE_MII NULL, idle_hw)"
proof -
  let ?g = "legacy_priv PHY_INTERFACE_MODE_GMII NULL"
  let ?s = "sun7i_fix_speed all_ok 1000 (?g, idle_hw)"
  let ?m = "legacy_priv PHY_INTERFACE_MODE_MII NULL"
  let ?t = "sun7i_fix_speed all_ok 1000 (?m, idle_hw)"
  have a: "regmap_field ?g = NULL" by (simp add: sample_defs)
  have b: "?s = (fst ?s, snd ?s)" by simp
  have c: "flag_tracks_clock ?g idle_hw" by (simp add: flag_tracks_clock_def sample_defs)
  have d: "interface ?g = PHY_INTERFACE_MODE_GMII" by (simp add: sample_defs)
  have a': "regmap_field ?m = NULL" by (simp add: sample_defs)
  have b': "?t = (fst ?t, snd ?t)" by simp
  have d': "interface ?m \<noteq> PHY_INTERFACE_MODE_GMII" by (simp add: sample_defs)
  from fix_speed_legacy_result [OF a' b'] d' have "?t = (?m, idle_hw)"
    by (metis b')
  with fix_speed_legacy_result [OF a b] a c d show ?thesis
    by (simp add: all_ok_def)
qed

text \<open>
  The claim as stated fails: in GMII mode after a successful init,
  fix_speed(1000) with a failing rate call does not leave the rate at 125 MHz,
  and with a failing enable call it leaves the clock off while the flag is 1.
\<close>

theorem fix_speed_legacy_rate_not_guaranteed:
  "regmap_field (legacy_priv PHY_INTERFACE_MODE_GMII NULL) = NULL
   \<and> interface (legacy_priv PHY_INTERFACE_MODE_GMII NULL) = PHY_INTERFACE_MODE_GMII
   \<and> fst (sun7i_gmac_init all_ok (legacy_priv PHY_INTERFACE_MODE_GMII NULL) idle_hw) = 0
   \<and> clk_rate (snd (sun7i_fix_speed (all_ok\<lparr>clk_set_rate_ret := - EINVAL\<rparr>) 1000
        (snd (sun7i_gmac_init all_ok (legacy_priv PHY_INTERFACE_MODE_GMII NULL) idle_hw))))
       \<noteq> SUN7I_GMAC_GMII_RGMII_RATE
   \<and> \<not> clk_on (snd (sun7i_fix_speed (all_ok\<lparr>clk_enable_ret := - EINVAL\<rparr>) 1000
        (snd (sun7i_gmac_init all_ok (legacy_priv PHY_INTERFACE_MODE_GMII NULL) idle_hw))))
   \<and> clk_enabled (fst (sun7i_fix_speed (all_ok\<lparr>clk_enable_ret := - EINVAL\<rparr>) 1000
        (snd (sun7i_gmac_init all_ok (legacy_priv PHY_INTERFACE_MODE_GMII NULL) idle_hw))))
       = 1"
  by (simp add: sun7i_gmac_init_def sun7i_fix_speed_def prim_defs sample_defs EINVAL_def
      SUN7I_GMAC_GMII_RGMII_RATE_def SUN7I_GMAC_MII_RATE_def)

subsection \<open>exit\<close>

lemma init_settled:
  "post_discovery g h \<Longrightarrow> sun7i_gmac_init e g h = (r, g', h') \<Longrightarrow> settled g' h'"
  by (auto simp add: sun7i_gmac_init_def post_discovery_def settled_def flag_tracks_clock_def
      prim_defs split: prod.splits if_splits)

lemma fix_speed_settled:
  "settled g h \<Longrightarrow> sun7i_fix_speed e v (g, h) = (g', h') \<Longrightarrow> settled g' h'"
  by (auto simp add: sun7i_fix_speed_def settled_def flag_tracks_clock_def prim_defs
      split: prod.splits if_splits)

lemma fix_speeds_settled:
  "settled g h \<Longrightarrow> fix_speeds evs (g, h) = (g', h') \<Longrightarrow> settled g' h'"
proof (induction evs arbitrary: g h)
  case Nil
  then show ?case by simp
next
  case (Cons a evs)
  obtain e v where a: "a = (e, v)" by (cases a)
  obtain g1 h1 where s: "sun7i_fix_speed e v (g, h) = (g1, h1)"
    by (cases "sun7i_fix_speed e v (g, h)")
  from Cons.prems(1) s have "settled g1 h1" by (rule fix_speed_settled)
  moreover from Cons.prems(2) a s have "fix_speeds evs (g1, h1) = (g', h')" by simp
  ultimately show ?case by (rule Cons.IH)
qed

lemma fix_speeds_handles:
  "fix_speeds evs (g, h) = (g', h') \<Longrightarrow>
   regmap_field g' = regmap_field g \<and> regulator g' = regulator g"
proof (induction evs arbitrary: g h)
  case Nil
  then show ?case by simp
next
  case (Cons a evs)
  obtain e v where a: "a = (e, v)" by (cases a)
  obtain g1 h1 where s: "sun7i_fix_speed e v (g, h) = (g1, h1)"
    by (cases "sun7i_fix_speed e v (g, h)")
  from fix_speed_frame [OF s]
  have "regmap_field g1 = regmap_field g \<and> regulator g1 = regulator g"
    by (metis sunxi_priv_data.select_convs(4,5) sunxi_priv_data.surjective
        sunxi_priv_data.update_convs(2))
  moreover from Cons.prems a s have "fix_speeds evs (g1, h1) = (g', h')" by simp
  then have "regmap_field g' = regmap_field g1 \<and> regulator g' = regulator g1"
    by (rule Cons.IH)
  ultimately show ?case by simp
qed

lemma init_handles:
  "sun7i_gmac_init e g h = (r, g', h') \<Longrightarrow>
   regmap_field g' = regmap_field g \<and> regulator g' = regulator g"
  by (auto simp add: sun7i_gmac_init_def split: prod.splits if_splits)

lemma exit_settled:
  "settled g h \<Longrightarrow> sun7i_gmac_exit g h = (g', h') \<Longrightarrow>
   \<not> clk_on h' \<and> \<not> clk_prepared h' \<and> clk_enabled g' = 0
   \<and> (regmap_field g \<noteq> NULL \<longrightarrow> field_val h' = 0)
   \<and> \<not> regulator_on h'
   \<and> (regulator g \<noteq> NULL \<longrightarrow>
        last (calls h') = Regulator_disable \<and> last (butlast (calls h')) = Clk_unprepare)"
  by (auto simp add: sun7i_gmac_exit_def settled_def flag_tracks_clock_def prim_defs
      butlast_append split: prod.splits if_splits)

text \<open>
  C5. From the state discovery leaves, after a successful init and any number
  of fix_speed calls (any speeds, any outcomes of the primitives), exit leaves
  the clock disabled and unprepared, the flag at 0, the mode-select field at
  zero on the modern path and the regulator not enabled; when a regulator was
  acquired, disabling it is the last call exit makes, right after the clock's
  unprepare.
\<close>

theorem exit_releases_everything:
  assumes "post_discovery g h" and "sun7i_gmac_init e g h = (0, g1, h1)"
    and "fix_speeds evs (g1, h1) = (g2, h2)" and "sun7i_gmac_exit g2 h2 = (g3, h3)"
  shows "\<not> clk_on h3 \<and> \<not> clk_prepared h3 \<and> clk_enabled g3 = 0
       \<and> (regmap_field g \<noteq> NULL \<longrightarrow> field_val h3 = 0)
       \<and> \<not> regulator_on h3
       \<and> (regulator g \<noteq> NULL \<longrightarrow>
            last (calls h3) = Regulator_disable \<and> last (butlast (calls h3)) = Clk_unprepare)"
proof -
  from assms(1,2) have "settled g1 h1" by (rule init_settled)
  then have s2: "settled g2 h2" using assms(3) by (rule fix_speeds_settled)
  from init_handles [OF assms(2)] fix_speeds_handles [OF assms(3)]
  have same: "regmap_field g2 = regmap_field g" "regulator g2 = regulator g" by simp_all
  from exit_settled [OF s2 assms(4)] same show ?thesis by simp
qed

theorem exit_releases_everything_witness:
  "post_discovery (modern_priv PHY_INTERFACE_MODE_RGMII (Ptr 2)) idle_hw
   \<and> fst (sun7i_gmac_init all_ok (modern_priv PHY_INTERFACE_MODE_RGMII (Ptr 2)) idle_hw) = 0
   \<and> snd (sun7i_gmac_exit
        (fst (fix_speeds [(all_ok, 100)]
          (snd (sun7i_gmac_init all_ok (modern_priv PHY_INTERFACE_MODE_RGMII (Ptr 2)) idle_hw))))
        (snd (fix_speeds [(all_ok, 100)]
          (snd (sun7i_gmac_init all_ok (modern_priv PHY_INTERFACE_MODE_RGMII (Ptr 2)) idle_hw)))))
     = idle_hw\<lparr>calls := [Regulator_enable, Regmap_field_write SUN7I_A20_RGMII_CLK,
         Clk_prepare, Clk_enable, Clk_disable, Clk_unprepare,
         Regmap_field_write SUN7I_A20_MII_CLK, Clk_prepare, Clk_enable,
         Regmap_field_write 0, Clk_disable, Clk_unprepare, Regulator_disable]\<rparr>"
proof -
  let ?g = "modern_priv PHY_INTERFACE_MODE_RGMII (Ptr 2)"
  let ?i = "sun7i_gmac_init all_ok ?g idle_hw"
  let ?f = "fix_speeds [(all_ok, 100)] (snd ?i)"
  let ?x = "sun7i_gmac_exit (fst ?f) (snd ?f)"
  have a: "post_discovery ?g idle_hw" by (simp add: post_discovery_def sample_defs)
  have b: "?i = (0, fst (snd ?i), snd (snd ?i))"
    by (simp add: sun7i_gmac_init_def prim_defs sample_defs)
  have c: "fix_speeds [(all_ok, 100)] (fst (snd ?i), snd (snd ?i)) = (fst ?f, snd ?f)" by simp
  have d: "?x = (fst ?x, snd ?x)" by simp
  have r: "regmap_field ?g \<noteq> NULL" "regulator ?g \<noteq> NULL" by (simp_all add: sample_defs)
  have v: "snd ?x = idle_hw\<lparr>calls := [Regulator_enable, Regmap_field_write SUN7I_A20_RGMII_CLK,
         Clk_prepare, Clk_enable, Clk_disable, Clk_unprepare,
         Regmap_field_write SUN7I_A20_MII_CLK, Clk_prepare, Clk_enable,
         Regmap_field_write 0, Clk_disable, Clk_unprepare, Regulator_disable]\<rparr>"
    by (simp add: sun7i_gmac_init_def sun7i_fix_speed_def sun7i_gmac_exit_def prim_defs
        sample_defs)
  from exit_releases_everything [OF a b c d] a b v show ?thesis
    by (metis fst_conv)
qed

subsection \<open>Calling fix_speed twice\<close>

text \<open>
  C6 (as amended). In every state reached from discovery by a successful init
  and any number of fix_speed calls, on either path and for every speed,
  calling fix_speed twice in a row leaves the same observable state (private
  data with the flag, register field, clock rate, prepared and enabled state,
  regulator) as calling it once, provided the clock primitives return in the
  second call what they returned in the first (as when they all succeed).
\<close>

theorem fix_speed_idempotent:
  assumes "post_discovery g h" and "fst (sun7i_gmac_init e0 g h) = 0"
  shows "observable (sun7i_fix_speed e speed (sun7i_fix_speed e speed
           (fix_speeds evs (snd (sun7i_gmac_init e0 g h)))))
       = observable (sun7i_fix_speed e speed
           (fix_speeds evs (snd (sun7i_gmac_init e0 g h))))"
proof -
  obtain r g1 h1 where i: "sun7i_gmac_init e0 g h = (r, g1, h1)"
    by (cases "sun7i_gmac_init e0 g h")
  obtain g2 h2 where f: "fix_speeds evs (g1, h1) = (g2, h2)"
    by (cases "fix_speeds evs (g1, h1)")
  from assms(1) i have "flag_tracks_clock g1 h1" by (rule init_tracks)
  then have "flag_tracks_clock g2 h2" using f by (rule fix_speeds_tracks)
  then have "observable (sun7i_fix_speed e speed (sun7i_fix_speed e speed (g2, h2)))
    = observable (sun7i_fix_speed e speed (g2, h2))"
    by (auto simp add: sun7i_fix_speed_def flag_tracks_clock_def observable_def prim_defs
        split: prod.splits if_splits)
  with i f show ?thesis by simp
qed

theorem fix_speed_idempotent_witness:
  "post_discovery (legacy_priv PHY_INTERFACE_MODE_GMII NULL) idle_hw
   \<and> fst (sun7i_gmac_init all_ok (legacy_priv PHY_INTERFACE_MODE_GMII NULL) idle_hw) = 0
   \<and> observable (sun7i_fix_speed all_ok 1000 (sun7i_fix_speed all_ok 1000
        (fix_speeds [(all_ok, 10)]
          (snd (sun7i_gmac_init all_ok (legacy_priv PHY_INTERFACE_MODE_GMII NULL) idle_hw)))))
     = observable (sun7i_fix_speed all_ok 1000
        (fix_speeds [(all_ok, 10)]
          (snd (sun7i_gmac_init all_ok (legacy_priv PHY_INTERFACE_MODE_GMII NULL) idle_hw))))"
proof -
  let ?g = "legacy_priv PHY_INTERFACE_MODE_GMII NULL"
  have a: "post_discovery ?g idle_hw" by (simp add: post_discovery_def sample_defs)
  have b: "fst (sun7i_gmac_init all_ok ?g idle_hw) = 0"
    by (simp add: sun7i_gmac_init_def prim_defs sample_defs)
  from fix_speed_idempotent [OF a b] a b show ?thesis by blast
qed

text \<open>
  The claim as stated fails: every call has its own primitive outcomes and
  drops them. After a successful init, a fix_speed(1000) in which every
  primitive succeeds leaves the clock enabled; a second fix_speed(1000) whose
  prepare call (modern path) or enable call (legacy path, GMII) fails leaves
  it disabled, so two calls do not leave the state one call leaves.
\<close>

theorem fix_speed_second_call_differs:
  "fst (sun7i_gmac_init all_ok (modern_priv PHY_INTERFACE_MODE_RGMII NULL) idle_hw) = 0
   \<and> observable (sun7i_fix_speed (all_ok\<lparr>clk_prepare_ret := - EINVAL\<rparr>) 1000
        (sun7i_fix_speed all_ok 1000
          (snd (sun7i_gmac_init all_ok (modern_priv PHY_INTERFACE_MODE_RGMII NULL) idle_hw))))
     \<noteq> observable (sun7i_fix_speed all_ok 1000
          (snd (sun7i_gmac_init all_ok (modern_priv PHY_INTERFACE_MODE_RGMII NULL) idle_hw)))
   \<and> clk_on (snd (sun7i_fix_speed all_ok 1000
          (snd (sun7i_gmac_init all_ok (modern_priv PHY_INTERFACE_MODE_RGMII NULL) idle_hw))))
   \<and> \<not> clk_on (snd (sun7i_fix_speed (all_ok\<lparr>clk_prepare_ret := - EINVAL\<rparr>) 1000
        (sun7i_fix_speed all_ok 1000
          (snd (sun7i_gmac_init all_ok (modern_priv PHY_INTERFACE_MODE_RGMII NULL) idle_hw)))))
   \<and> fst (sun7i_gmac_init all_ok (legacy_priv PHY_INTERFACE_MODE_GMII NULL) idle_hw) = 0
   \<and> observable (sun7i_fix_speed (all_ok\<lparr>clk_enable_ret := - EINVAL\<rparr>) 1000
        (sun7i_fix_speed all_ok 1000
          (snd (sun7i_gmac_init all_ok (legacy_priv PHY_INTERFACE_MODE_GMII NULL) idle_hw))))
     \<noteq> observable (sun7i_fix_speed all_ok 1000
          (snd (sun7i_gmac_init all_ok (legacy_priv PHY_INTERFACE_MODE_GMII NULL) idle_hw)))"
  by (simp add: sun7i_gmac_init_def sun7i_fix_speed_def observable_def prim_defs sample_defs
      EINVAL_def)

subsection \<open>What the entry points change in the private data\<close>

lemma driver_step_frame:
  "driver_step c (g, h) = (g', h') \<Longrightarrow> g' = g\<lparr>clk_enabled := clk_enabled g'\<rparr>"
proof (cases c)
  case (Init e)
  assume "driver_step c (g, h) = (g', h')"
  with Init have "sun7i_gmac_init e g h = (fst (sun7i_gmac_init e g h), g', h')"
    by (metis driver_step.simps(1) prod.collapse)
  then show ?thesis by (rule init_frame)
next
  case (Fix_speed e v)
  assume "driver_step c (g, h) = (g', h')"
  with Fix_speed show ?thesis by (simp add: fix_speed_frame)
next
  case Exit
  assume "driver_step c (g, h) = (g', h')"
  with Exit show ?thesis by (simp add: exit_frame)
qed

lemma init_modern_flag:
  "regmap_field g \<noteq> NULL \<Longrightarrow> sun7i_gmac_init e g h = (r, g', h') \<Longrightarrow>
   g' = g \<and> sun7i_gmac_init e (g\<lparr>clk_enabled := k\<rparr>) h = (r, g\<lparr>clk_enabled := k\<rparr>, h')"
  by (auto simp add: sun7i_gmac_init_def split: prod.splits if_splits)

lemma fix_speed_modern_flag:
  "regmap_field g \<noteq> NULL \<Longrightarrow> sun7i_fix_speed e v (g, h) = (g', h') \<Longrightarrow>
   g' = g \<and> sun7i_fix_speed e v (g\<lparr>clk_enabled := k\<rparr>, h) = (g\<lparr>clk_enabled := k\<rparr>, h')"
  by (auto simp add: sun7i_fix_speed_def split: prod.splits if_splits)

lemma exit_modern_flag:
  "regmap_field g \<noteq> NULL \<Longrightarrow> sun7i_gmac_exit g h = (g', h') \<Longrightarrow>
   g' = g \<and> sun7i_gmac_exit (g\<lparr>clk_enabled := k\<rparr>) h = (g\<lparr>clk_enabled := k\<rparr>, h')"
  by (auto simp add: sun7i_gmac_exit_def split: prod.splits if_splits)

lemma driver_step_modern_flag:
  assumes "regmap_field g \<noteq> NULL" and "driver_step c (g, h) = (g', h')"
  shows "g' = g \<and> driver_step c (g\<lparr>clk_enabled := k\<rparr>, h) = (g\<lparr>clk_enabled := k\<rparr>, h')"
proof (cases c)
  case (Init e)
  with assms(2) have "sun7i_gmac_init e g h = (fst (sun7i_gmac_init e g h), g', h')"
    by (metis driver_step.simps(1) prod.collapse)
  from init_modern_flag [OF assms(1) this] Init show ?thesis by simp
next
  case (Fix_speed e v)
  with assms(2) have "sun7i_fix_speed e v (g, h) = (g', h')" by simp
  from fix_speed_modern_flag [OF assms(1) this] Fix_speed show ?thesis by simp
next
  case Exit
  with assms(2) have "sun7i_gmac_exit g h = (g', h')" by simp
  from exit_modern_flag [OF assms(1) this] Exit show ?thesis by simp
qed

lemma driver_run_fields:
  "driver_run cs (g, h) = (g', h') \<Longrightarrow> g' = g\<lparr>clk_enabled := clk_enabled g'\<rparr>"
proof (induction cs arbitrary: g h)
  case Nil
  then show ?case by simp
next
  case (Cons c cs)
  obtain g1 h1 where s: "driver_step c (g, h) = (g1, h1)" by (cases "driver_step c (g, h)")
  from s have a: "g1 = g\<lparr>clk_enabled := clk_enabled g1\<rparr>" by (rule driver_step_frame)
  from Cons.prems s have "driver_run cs (g1, h1) = (g', h')" by simp
  then have b: "g' = g1\<lparr>clk_enabled := clk_enabled g'\<rparr>" by (rule Cons.IH)
  have "g1\<lparr>clk_enabled := clk_enabled g'\<rparr> = g\<lparr>clk_enabled := clk_enabled g'\<rparr>"
    by (subst a) simp
  with b show ?case by simp
qed

lemma driver_run_modern_flag:
  "regmap_field g \<noteq> NULL \<Longrightarrow> driver_run cs (g, h) = (g', h') \<Longrightarrow>
   g' = g \<and> driver_run cs (g\<lparr>clk_enabled := k\<rparr>, h) = (g\<lparr>clk_enabled := k\<rparr>, h')"
proof (induction cs arbitrary: h)
  case Nil
  then show ?case by simp
next
  case (Cons c cs)
  obtain g1 h1 where s: "driver_step c (g, h) = (g1, h1)" by (cases "driver_step c (g, h)")
  from driver_step_modern_flag [OF Cons.prems(1) s, of k]
  have a: "g1 = g" "driver_step c (g\<lparr>clk_enabled := k\<rparr>, h) = (g\<lparr>clk_enabled := k\<rparr>, h1)"
    by simp_all
  from Cons.prems(2) s a have "driver_run cs (g, h1) = (g', h')" by simp
  from Cons.IH [OF Cons.prems(1) this] a show ?case by simp
qed

text \<open>
  C10. Through every sequence of init, fix_speed and exit calls, whatever the
  primitives answer, the interface mode and the three handles of the private
  data keep their values: the final private data is the initial one with at
  most the flag changed. On the modern path (register-field handle not NULL)
  the flag is neither written nor read: it keeps its value (zero after
  discovery), and with any other flag value \<open>k\<close> in its place the same
  sequence yields the same resources and calls and leaves \<open>k\<close> in place, and
  init returns the same code.
\<close>

theorem driver_calls_frame:
  assumes "driver_run cs (g, h) = (g', h')"
  shows "g' = g\<lparr>clk_enabled := clk_enabled g'\<rparr>
       \<and> (regmap_field g \<noteq> NULL \<longrightarrow>
            clk_enabled g' = clk_enabled g
            \<and> driver_run cs (g\<lparr>clk_enabled := k\<rparr>, h) = (g\<lparr>clk_enabled := k\<rparr>, h')
            \<and> fst (sun7i_gmac_init e (g\<lparr>clk_enabled := k\<rparr>) h) = fst (sun7i_gmac_init e g h))"
proof -
  have "g' = g\<lparr>clk_enabled := clk_enabled g'\<rparr>" using assms by (rule driver_run_fields)
  moreover have "regmap_field g \<noteq> NULL \<longrightarrow>
     fst (sun7i_gmac_init e (g\<lparr>clk_enabled := k\<rparr>) h) = fst (sun7i_gmac_init e g h)"
    by (auto simp add: sun7i_gmac_init_def split: prod.splits if_splits)
  moreover have "regmap_field g \<noteq> NULL \<longrightarrow> clk_enabled g' = clk_enabled g
     \<and> driver_run cs (g\<lparr>clk_enabled := k\<rparr>, h) = (g\<lparr>clk_enabled := k\<rparr>, h')"
    using driver_run_modern_flag [OF _ assms, of k] by simp
  ultimately show ?thesis by simp
qed

theorem driver_calls_frame_witness:
  "regmap_field (modern_priv PHY_INTERFACE_MODE_RGMII (Ptr 2)) \<noteq> NULL
   \<and> fst (driver_run [Init all_ok, Fix_speed all_ok 100, Exit]
        (modern_priv PHY_INTERFACE_MODE_RGMII (Ptr 2), idle_hw))
     = modern_priv PHY_INTERFACE_MODE_RGMII (Ptr 2)
   \<and> fst (driver_run [Init all_ok, Fix_speed all_ok 1000, Fix_speed all_ok 10, Exit]
        (legacy_priv PHY_INTERFACE_MODE_GMII (Ptr 2), idle_hw))
     = legacy_priv PHY_INTERFACE_MODE_GMII (Ptr 2)"
proof -
  let ?g = "modern_priv PHY_INTERFACE_MODE_RGMII (Ptr 2)"
  let ?r = "driver_run [Init all_ok, Fix_speed all_ok 100, Exit] (?g, idle_hw)"
  let ?l = "legacy_priv PHY_INTERFACE_MODE_GMII (Ptr 2)"
  let ?q = "driver_run [Init all_ok, Fix_speed all_ok 1000, Fix_speed all_ok 10, Exit] (?l, idle_hw)"
  have a: "regmap_field ?g \<noteq> NULL" by (simp add: sample_defs)
  have b: "?r = (fst ?r, snd ?r)" by simp
  have c: "?q = (fst ?q, snd ?q)" by simp
  have d: "clk_enabled (fst ?q) = 0"
    by (simp add: sun7i_gmac_init_def sun7i_fix_speed_def sun7i_gmac_exit_def prim_defs
        sample_defs)
  have e: "clk_enabled ?l = 0" by (simp add: sample_defs)
  from driver_calls_frame [OF c] d e have "fst ?q = ?l"
    by (metis sunxi_priv_data.update_convs(2) sunxi_priv_data.surjective
        sunxi_priv_data.select_convs(2) sunxi_priv_data.equality legacy_priv_def)
  moreover from driver_calls_frame [OF b] a have "fst ?r = ?g"
    by (metis sunxi_priv_data.update_convs(2) sunxi_priv_data.surjective
        sunxi_priv_data.select_convs(2) sunxi_priv_data.equality)
  ultimately show ?thesis using a by simp
qed

subsection \<open>Discovery with the register's owner not yet probed\<close>

text \<open>
  With the \<open>syscon\<close> reference present and no platform device found for it,
  the helper returns the deferred error.
\<close>

lemma get_syscon_defers:
  "syscon_phandle pe \<Longrightarrow> \<not> syscon_pdev pe \<Longrightarrow>
   sun7i_gmac_get_syscon_from_dev pe = ERR_PTR (- EPROBE_DEFER)"
  by (simp add: sun7i_gmac_get_syscon_from_dev_def)

text \<open>
  Probe does not return that error: it replaces it by the answer of the
  generic syscon lookup, and when that lookup fails too, probe returns the
  lookup's code, whatever it is, before any regulator is requested or any
  resource touched.
\<close>

lemma probe_returns_fallback_error:
  assumes "platform_resources_ret pe = 0" and "\<not> IS_ERR (config_dt pe)" and "kzalloc_ok pe"
    and "phy_mode_ret pe = 0 \<or> phy_mode_ret pe = - ENODEV"
    and "syscon_phandle pe" and "\<not> IS_ERR (stmmaceth_clk pe)" and "\<not> syscon_pdev pe"
    and "IS_ERR (syscon_lookup pe)"
  shows "sun7i_gmac_probe pe h =
           (PTR_ERR (syscon_lookup pe),
            Some (zeroed_priv\<lparr>interface := phy_mode pe, tx_clk := stmmaceth_clk pe\<rparr>), h)"
  using assms
  by (auto simp add: sun7i_gmac_probe_def sun7i_gmac_probe_resources_def
      sun7i_gmac_get_syscon_from_dev_def Let_def EPROBE_DEFER_def MAX_ERRNO_def)

text \<open>
  C7. With the \<open>syscon\<close> reference present and the device that owns the
  register not yet probed, discovery is to fail with the retryable deferred
  error. At the hardware description below the helper does build
  \<open>ERR_PTR (- EPROBE_DEFER)\<close>, but probe overwrites it with the answer of the
  generic syscon lookup, here \<open>- EINVAL\<close>, and returns that fatal code instead
  of \<open>- EPROBE_DEFER\<close>; the private data then holds the transmit-clock handle
  only and no resource was touched.
\<close>

theorem probe_loses_deferral:
  "syscon_phandle (syscon_not_ready (ERR_PTR (- EINVAL)))
   \<and> \<not> syscon_pdev (syscon_not_ready (ERR_PTR (- EINVAL)))
   \<and> sun7i_gmac_get_syscon_from_dev (syscon_not_ready (ERR_PTR (- EINVAL)))
       = ERR_PTR (- EPROBE_DEFER)
   \<and> sun7i_gmac_probe (syscon_not_ready (ERR_PTR (- EINVAL))) idle_hw =
       (- EINVAL,
        Some (zeroed_priv\<lparr>interface := PHY_INTERFACE_MODE_RGMII, tx_clk := Ptr 0\<rparr>), idle_hw)
   \<and> - EINVAL \<noteq> - EPROBE_DEFER"
  by (simp add: sun7i_gmac_probe_def sun7i_gmac_probe_resources_def
      sun7i_gmac_get_syscon_from_dev_def Let_def syscon_not_ready_def
      EINVAL_def EPROBE_DEFER_def MAX_ERRNO_def)

subsection \<open>init failing after the regulator was enabled\<close>

text \<open>
  Whenever the regulator was acquired and its enable succeeded, init returns
  with the regulator still enabled and without having called the regulator's
  disable, whether init succeeds or fails.
\<close>

lemma init_failure_keeps_regulator:
  "regulator g \<noteq> NULL \<Longrightarrow> regulator_enable_ret e = 0 \<Longrightarrow>
   regulator_on (snd (snd (sun7i_gmac_init e g h)))
   \<and> Regulator_disable \<notin> set (drop (length (calls h)) (calls (snd (snd (sun7i_gmac_init e g h)))))"
  by (auto simp add: sun7i_gmac_init_def prim_defs split: prod.splits if_splits)

text \<open>
  C8. A failing init is to release what it acquired, the enabled regulator in
  particular, before the error reaches the caller. At the input below (legacy
  path, no explicit mode, a regulator present, the clock's prepare failing with
  \<open>-EINVAL\<close>) init returns \<open>-EINVAL\<close> with the regulator enabled and the rate
  already set, and probe returns the same error without ever disabling the
  regulator.
\<close>

theorem init_failure_leaves_regulator_on:
  "sun7i_gmac_init (all_ok\<lparr>clk_prepare_ret := - EINVAL\<rparr>)
     (legacy_priv PHY_INTERFACE_MODE_MII (Ptr 2)) idle_hw =
     (- EINVAL, legacy_priv PHY_INTERFACE_MODE_MII (Ptr 2),
      idle_hw\<lparr>clk_rate := SUN7I_GMAC_MII_RATE, regulator_on := True,
        calls := [Regulator_enable, Clk_set_rate SUN7I_GMAC_MII_RATE, Clk_prepare]\<rparr>)
   \<and> fst (sun7i_gmac_probe (legacy_dt (all_ok\<lparr>clk_prepare_ret := - EINVAL\<rparr>)) idle_hw)
       = - EINVAL
   \<and> regulator_on (snd (snd
        (sun7i_gmac_probe (legacy_dt (all_ok\<lparr>clk_prepare_ret := - EINVAL\<rparr>)) idle_hw)))
   \<and> Regulator_disable \<notin> set (calls (snd (snd
        (sun7i_gmac_probe (legacy_dt (all_ok\<lparr>clk_prepare_ret := - EINVAL\<rparr>)) idle_hw))))"
  by (simp add: sun7i_gmac_probe_def sun7i_gmac_probe_resources_def Let_def legacy_dt_def
      zeroed_priv_def sun7i_gmac_init_def prim_defs sample_defs ENODEV_def EINVAL_def
      EPROBE_DEFER_def MAX_ERRNO_def)

subsection \<open>Which failures make init fail\<close>

text \<open>
  C9 (as amended). Leaving aside the modern path with a mode outside the RGMII
  family, the code init returns is: the regulator enable's code when a
  regulator is present and its enable fails; otherwise, on the modern path, the
  code of the combined prepare+enable (the prepare's if it fails, else the
  enable's, so an enable failure is fatal there); otherwise, on the legacy path,
  0 for an RGMII-family mode whatever the clock calls return, and the prepare
  call's code for any other mode. The result of the rate call never counts.
\<close>

theorem init_return_code:
  assumes "regmap_field g = NULL \<or> phy_interface_mode_is_rgmii (interface g)"
  shows "fst (sun7i_gmac_init e g h) =
     (if regulator g \<noteq> NULL \<and> regulator_enable_ret e \<noteq> 0 then regulator_enable_ret e
      else if regmap_field g \<noteq> NULL
        then (if clk_prepare_ret e \<noteq> 0 then clk_prepare_ret e else clk_enable_ret e)
      else if phy_interface_mode_is_rgmii (interface g) then 0
      else clk_prepare_ret e)"
  using assms
  by (auto simp add: sun7i_gmac_init_def prim_defs split: prod.splits if_splits)

theorem init_return_code_witness:
  "fst (sun7i_gmac_init (all_ok\<lparr>clk_set_rate_ret := - EINVAL, clk_prepare_ret := - ENOMEM\<rparr>)
     (legacy_priv PHY_INTERFACE_MODE_MII NULL) idle_hw) = - ENOMEM
   \<and> regmap_field (legacy_priv PHY_INTERFACE_MODE_MII NULL) = NULL"
proof -
  let ?g = "legacy_priv PHY_INTERFACE_MODE_MII NULL"
  have a: "regmap_field ?g = NULL \<or> phy_interface_mode_is_rgmii (interface ?g)"
    by (simp add: sample_defs)
  from init_return_code [OF a] show ?thesis
    by (simp add: sample_defs)
qed

text \<open>
  The claim as stated fails in both directions: a failing rate call and (for
  RGMII on the legacy path) a failing prepare call leave init returning 0, and
  on the modern path a failing enable call, with rate and prepare succeeding,
  makes init fail.
\<close>

theorem init_fatal_failures_differ:
  "clk_set_rate_ret (all_ok\<lparr>clk_set_rate_ret := - EINVAL\<rparr>) \<noteq> 0
   \<and> fst (sun7i_gmac_init (all_ok\<lparr>clk_set_rate_ret := - EINVAL\<rparr>)
        (legacy_priv PHY_INTERFACE_MODE_MII NULL) idle_hw) = 0
   \<and> clk_prepare_ret (all_ok\<lparr>clk_prepare_ret := - EINVAL\<rparr>) \<noteq> 0
   \<and> fst (sun7i_gmac_init (all_ok\<lparr>clk_prepare_ret := - EINVAL\<rparr>)
        (legacy_priv PHY_INTERFACE_MODE_RGMII NULL) idle_hw) = 0
   \<and> clk_set_rate_ret (all_ok\<lparr>clk_enable_ret := - EINVAL\<rparr>) = 0
   \<and> clk_prepare_ret (all_ok\<lparr>clk_enable_ret := - EINVAL\<rparr>) = 0
   \<and> fst (sun7i_gmac_init (all_ok\<lparr>clk_enable_ret := - EINVAL\<rparr>)
        (modern_priv PHY_INTERFACE_MODE_RGMII NULL) idle_hw) \<noteq> 0"
  by (simp add: sun7i_gmac_init_def prim_defs sample_defs EINVAL_def)

end
